theory Spec2Isabelle
  imports Main "HOL-Library.Sublist"
begin

section \<open>JavaScript values\<close>

text \<open>
  The component is untyped (\<^verbatim>\<open>// @ts-nocheck\<close>, parameters of type \<^verbatim>\<open>any\<close>), so rows,
  backend records and event payloads are JavaScript values. An object is the list of
  its own properties in insertion order; reading a property that is absent gives
  \<open>JUndefined\<close>. Numbers are the integers the component produces (the row counter).
  Strings are lists of code units below 256 (Latin-1).
\<close>

datatype jsval =
    JUndefined
  | JNull
  | JBool bool
  | JNum int
  | JStr string
  | JArr "jsval list"
  | JObj "(string \<times> jsval) list"

datatype error = TypeError

text \<open>
  \<^verbatim>\<open>v[k]\<close> and \<^verbatim>\<open>v.k\<close> for the property names this component reads, none of which is
  inherited from a prototype: a TypeError on \<^verbatim>\<open>undefined\<close> and \<^verbatim>\<open>null\<close>, the own property
  of an object, \<^verbatim>\<open>undefined\<close> everywhere else.
\<close>

fun getProp :: "jsval \<Rightarrow> string \<Rightarrow> error + jsval" where
  "getProp JUndefined k = Inl TypeError"
| "getProp JNull k = Inl TypeError"
| "getProp (JObj kvs) k = Inr (case map_of kvs k of None \<Rightarrow> JUndefined | Some v \<Rightarrow> v)"
| "getProp v k = Inr JUndefined"

section \<open>Strings: \<^verbatim>\<open>toLowerCase\<close> and \<^verbatim>\<open>includes\<close>\<close>

text \<open>
  \<^verbatim>\<open>String.prototype.toLowerCase\<close> on code units below 256: the letters A to Z and the
  Latin-1 capitals U+00C0 to U+00DE (without the multiplication sign U+00D7) move up
  by 32, every other code unit stays.
\<close>

definition lowerChar :: "char \<Rightarrow> char" where
  "lowerChar c =
     (let n = (of_char c :: nat)
      in if (65 \<le> n \<and> n \<le> 90) \<or> (192 \<le> n \<and> n \<le> 222 \<and> n \<noteq> 215)
         then char_of (n + 32) else c)"

definition toLowerCase :: "string \<Rightarrow> string" where
  "toLowerCase s = map lowerChar s"

text \<open>
  \<^verbatim>\<open>s.includes(t)\<close>: \<open>t\<close> occurs in \<open>s\<close> at some position; the empty string occurs in
  every string.
\<close>

fun str_includes :: "string \<Rightarrow> string \<Rightarrow> bool" where
  "str_includes [] t = (t = [])"
| "str_includes (c # cs) t = (prefix t (c # cs) \<or> str_includes cs t)"

text \<open>
  \<^verbatim>\<open>v.toLowerCase()\<close> on a value: only a string has the method; on \<^verbatim>\<open>undefined\<close> and
  \<^verbatim>\<open>null\<close> the property read throws, on any other value the call of \<^verbatim>\<open>undefined\<close> throws.
\<close>

fun callToLowerCase :: "jsval \<Rightarrow> error + string" where
  "callToLowerCase (JStr s) = Inr (toLowerCase s)"
| "callToLowerCase v = Inl TypeError"

section \<open>The table filter \<^verbatim>\<open>filterData\<close>\<close>

text \<open>\<^verbatim>\<open>row[k].toLowerCase().includes(terms)\<close>\<close>

definition fieldIncludes :: "jsval \<Rightarrow> string \<Rightarrow> string \<Rightarrow> error + bool" where
  "fieldIncludes row k terms =
     (case getProp row k of
        Inl e \<Rightarrow> Inl e
      | Inr v \<Rightarrow> (case callToLowerCase v of
                   Inl e \<Rightarrow> Inl e
                 | Inr s \<Rightarrow> Inr (str_includes s terms)))"

text \<open>
  The condition of the \<^verbatim>\<open>if\<close>: \<^verbatim>\<open>||\<close> evaluates its right operand only when the left one
  is false.
\<close>

definition rowCond :: "jsval \<Rightarrow> string \<Rightarrow> error + bool" where
  "rowCond row terms =
     (case fieldIncludes row ''subject'' terms of
        Inl e \<Rightarrow> Inl e
      | Inr True \<Rightarrow> Inr True
      | Inr False \<Rightarrow> fieldIncludes row ''description'' terms)"

text \<open>The variables of \<^verbatim>\<open>filterData\<close>: its two parameters, \<^verbatim>\<open>filtered\<close> and the index.\<close>

record filterData_vars =
  fd_rows :: "jsval list"
  fd_terms :: string
  fd_filtered :: "jsval list"
  fd_i :: nat

function filterData_loop :: "filterData_vars \<Rightarrow> error + filterData_vars" where
  "filterData_loop v =
     (if fd_i v < length (fd_rows v) then
        (case rowCond (fd_rows v ! fd_i v) (fd_terms v) of
           Inl e \<Rightarrow> Inl e
         | Inr b \<Rightarrow>
             filterData_loop
               ((if b then v\<lparr>fd_filtered := fd_filtered v @ [fd_rows v ! fd_i v]\<rparr> else v)
                  \<lparr>fd_i := fd_i v + 1\<rparr>))
      else Inr v)"
  by pat_completeness auto
termination
  by (relation "measure (\<lambda>v. length (fd_rows v) - fd_i v)") auto

declare filterData_loop.simps [simp del]

text \<open>The run of the body up to the \<^verbatim>\<open>return\<close>, with all four variables.\<close>

definition filterData_run :: "jsval list \<Rightarrow> string \<Rightarrow> error + filterData_vars" where
  "filterData_run rows terms =
     filterData_loop
       \<lparr>fd_rows = rows, fd_terms = toLowerCase terms, fd_filtered = [], fd_i = 0\<rparr>"

definition filterData :: "jsval list \<Rightarrow> string \<Rightarrow> error + jsval list" where
  "filterData rows terms =
     (case filterData_run rows terms of
        Inl e \<Rightarrow> Inl e
      | Inr v \<Rightarrow> Inr (fd_filtered v))"

section \<open>The component state and its collaborators\<close>

text \<open>
  \<^verbatim>\<open>date.formatDate\<close> belongs to the UI library, not to this repository: the handlers take
  it as a parameter, from the value and the mask to the formatted value.
\<close>

type_synonym formatter = "jsval \<Rightarrow> string \<Rightarrow> jsval"

text \<open>
  What the component asks of its collaborators, in the order it asks: a notification
  (\<^verbatim>\<open>$q.notify\<close>), the call of the \<^verbatim>\<open>dismiss\<close> function a notification returned (named by
  the position of that notification in the trace), the two remote calls, and the
  confirmation dialog, whose message is kept as its concatenated parts.
\<close>

datatype notification =
    Spinner string
  | Typed string string

datatype msgPart = Text string | Val jsval

datatype effect =
    Notify notification
  | Dismiss nat
  | ListRequest int int string bool string
  | DeleteRequest jsval
  | Dialog string "msgPart list"

text \<open>
  How a promise of a remote call settles, and how the user leaves the dialog. A handler
  is taken together with the callbacks of the promises and of the dialog it starts:
  they run, in their order, before the next event; loads that overlap are not modelled.
\<close>

datatype 'a outcome = Resolved 'a | Rejected

datatype answer = Ok | Cancel

text \<open>The refs of \<^verbatim>\<open>setup\<close> and the trace of effects so far.\<close>

record state =
  ticket :: jsval
  tickets :: "jsval list"
  showaddTicketDialog :: bool
  showUpdateTicketDialog :: bool
  effects :: "effect list"

definition emit :: "effect \<Rightarrow> state \<Rightarrow> state" where
  "emit e s = s\<lparr>effects := effects s @ [e]\<rparr>"

definition bindE :: "error + 'a \<Rightarrow> ('a \<Rightarrow> error + 'b) \<Rightarrow> error + 'b" where
  "bindE m f = (case m of Inl e \<Rightarrow> Inl e | Inr x \<Rightarrow> f x)"

section \<open>Loading: \<^verbatim>\<open>getTickets\<close>\<close>

text \<open>
  The object literal that both \<^verbatim>\<open>getTickets\<close> and \<^verbatim>\<open>updateTicketList\<close> build from a backend
  record \<^verbatim>\<open>data\<close>; \<open>n\<close> is the value of the \<^verbatim>\<open>"#"\<close> property.
\<close>

definition ticketRow :: "formatter \<Rightarrow> int \<Rightarrow> jsval \<Rightarrow> error + jsval" where
  "ticketRow formatDate n data =
     bindE (getProp data ''id'') (\<lambda>ident.
     bindE (getProp data ''subject'') (\<lambda>subject.
     bindE (getProp data ''description_text'') (\<lambda>description_text.
     bindE (getProp data ''status'') (\<lambda>status.
     bindE (getProp data ''created_at'') (\<lambda>created_at.
     bindE (getProp data ''updated_at'') (\<lambda>updated_at.
     bindE (getProp data ''comments'') (\<lambda>comments.
       Inr (JObj
         [(''#'', JNum n),
          (''id'', ident),
          (''subject'', subject),
          (''description'', description_text),
          (''status'', status),
          (''created'', formatDate created_at ''YYYY-MM-DDTHH:mm:ssZ''),
          (''updated'', formatDate updated_at ''YYYY-MM-DDTHH:mm:ssZ''),
          (''comments'', comments)]))))))))"

text \<open>\<^verbatim>\<open>res.data.data.map(...)\<close> with the running \<^verbatim>\<open>counter++\<close>.\<close>

fun mapTickets :: "formatter \<Rightarrow> int \<Rightarrow> jsval list \<Rightarrow> error + jsval list" where
  "mapTickets formatDate counter [] = Inr []"
| "mapTickets formatDate counter (data # rest) =
     (case ticketRow formatDate counter data of
        Inl e \<Rightarrow> Inl e
      | Inr row \<Rightarrow>
          (case mapTickets formatDate (counter + 1) rest of
             Inl e \<Rightarrow> Inl e
           | Inr rows \<Rightarrow> Inr (row # rows)))"

text \<open>
  \<^verbatim>\<open>getTickets\<close> with the settled promise of \<^verbatim>\<open>ticketsService.list\<close> (the array
  \<^verbatim>\<open>res.data.data\<close> when it resolves). There is no rejection handler, and an exception in
  the \<^verbatim>\<open>then\<close> callback rejects the promise that \<^verbatim>\<open>then\<close> returned: in both cases neither the
  assignment nor \<^verbatim>\<open>dismiss()\<close> runs.
\<close>

definition getTickets :: "formatter \<Rightarrow> jsval list outcome \<Rightarrow> state \<Rightarrow> state" where
  "getTickets formatDate res s =
     (let dismiss = length (effects s);
          s1 = emit (Notify (Spinner ''Please wait while loading tickets...'')) s;
          s2 = emit (ListRequest 0 100000 ''subject'' False '''') s1
      in case res of
           Rejected \<Rightarrow> s2
         | Resolved records \<Rightarrow>
             (case mapTickets formatDate 1 records of
                Inl e \<Rightarrow> s2
              | Inr rows \<Rightarrow> emit (Dismiss dismiss) (s2\<lparr>tickets := rows\<rparr>)))"

text \<open>The refs as \<^verbatim>\<open>setup\<close> creates them, and \<^verbatim>\<open>setup\<close> itself, which loads once.\<close>

definition initial :: state where
  "initial =
     \<lparr>ticket = JObj [], tickets = [], showaddTicketDialog = False,
      showUpdateTicketDialog = False, effects = []\<rparr>"

definition pageSetup :: "formatter \<Rightarrow> jsval list outcome \<Rightarrow> state" where
  "pageSetup formatDate res = getTickets formatDate res initial"

section \<open>The dialogs\<close>

definition addTicket :: "state \<Rightarrow> state" where
  "addTicket s = s\<lparr>showaddTicketDialog := True\<rparr>"

definition editTicket :: "formatter \<Rightarrow> jsval \<Rightarrow> jsval \<Rightarrow> state \<Rightarrow> error + state" where
  "editTicket formatDate event props s =
     bindE (getProp props ''id'') (\<lambda>ident.
     bindE (getProp props ''subject'') (\<lambda>subject.
     bindE (getProp props ''description'') (\<lambda>description.
     bindE (getProp props ''status'') (\<lambda>status.
     bindE (getProp props ''createdAt'') (\<lambda>createdAt.
     bindE (getProp props ''updatedAt'') (\<lambda>updatedAt.
     bindE (getProp props ''comments'') (\<lambda>comments.
       Inr (s\<lparr>ticket := JObj
                 [(''id'', ident),
                  (''subject'', subject),
                  (''description'', description),
                  (''status'', status),
                  (''created'', formatDate createdAt ''YYYY-MM-DDTHH:mm:ssZ''),
                  (''updated'', formatDate updatedAt ''YYYY-MM-DDTHH:mm:ssZ''),
                  (''comments'', comments)],
              showUpdateTicketDialog := True\<rparr>))))))))"

text \<open>
  \<^verbatim>\<open>deleteTicket\<close> with the user's answer to the dialog and the settled promises of the
  two remote calls. The message reads \<^verbatim>\<open>props.row.id\<close> before the dialog opens; the \<^verbatim>\<open>onOk\<close>
  callback reads it again.
\<close>

definition deleteTicket ::
  "formatter \<Rightarrow> answer \<Rightarrow> unit outcome \<Rightarrow> jsval list outcome \<Rightarrow> jsval \<Rightarrow> state \<Rightarrow> error + state"
where
  "deleteTicket formatDate ans del res props s =
     bindE (getProp props ''row'') (\<lambda>row.
     bindE (getProp row ''id'') (\<lambda>ident.
       let s1 = emit (Dialog ''Delete Ticket''
                        [Text ''You are about to delete a ticket: <ul><li>'', Val ident,
                         Text ''</li></ul>'']) s
       in case ans of
            Cancel \<Rightarrow> Inr s1
          | Ok \<Rightarrow>
              bindE (getProp props ''row'') (\<lambda>row'.
              bindE (getProp row' ''id'') (\<lambda>ident'.
                let s2 = emit (DeleteRequest ident') s1
                in case del of
                     Rejected \<Rightarrow> Inr s2
                   | Resolved u \<Rightarrow> Inr (getTickets formatDate res s2)))))"

definition ticketUpdated :: "formatter \<Rightarrow> jsval list outcome \<Rightarrow> state \<Rightarrow> state" where
  "ticketUpdated formatDate res s =
     getTickets formatDate res (s\<lparr>showUpdateTicketDialog := False\<rparr>)"

text \<open>
  \<^verbatim>\<open>updateTicketList\<close> closes the add dialog before it reads the payload, so an exception
  leaves the state with the dialog closed: \<open>Inl\<close> carries that state.
\<close>

definition updateTicketList :: "formatter \<Rightarrow> jsval \<Rightarrow> state \<Rightarrow> error \<times> state + state" where
  "updateTicketList formatDate payload s =
     (let s1 = s\<lparr>showaddTicketDialog := False\<rparr>
      in case getProp payload ''data'' of
           Inl e \<Rightarrow> Inl (e, s1)
         | Inr data \<Rightarrow>
             (case ticketRow formatDate (int (length (tickets s1)) + 1) data of
                Inl e \<Rightarrow> Inl (e, s1)
              | Inr row \<Rightarrow>
                  Inr (emit (Notify (Typed ''positive'' ''Ticket added successfully.''))
                         (s1\<lparr>tickets := tickets s1 @ [row]\<rparr>))))"

section \<open>The page as the user drives it\<close>

text \<open>
  The handlers the template binds, each with what the environment answers while it
  runs. A handler that throws leaves the refs as it had set them by then; the framework
  reports the exception and the page goes on.
\<close>

datatype event =
    AddTicket
  | EditTicket jsval jsval
  | DeleteTicket answer "unit outcome" "jsval list outcome" jsval
  | TicketUpdated "jsval list outcome"
  | UpdateTicketList jsval

fun handle :: "formatter \<Rightarrow> event \<Rightarrow> state \<Rightarrow> state" where
  "handle formatDate AddTicket s = addTicket s"
| "handle formatDate (EditTicket ev props) s =
     (case editTicket formatDate ev props s of Inl e \<Rightarrow> s | Inr s' \<Rightarrow> s')"
| "handle formatDate (DeleteTicket ans del res props) s =
     (case deleteTicket formatDate ans del res props s of Inl e \<Rightarrow> s | Inr s' \<Rightarrow> s')"
| "handle formatDate (TicketUpdated res) s = ticketUpdated formatDate res s"
| "handle formatDate (UpdateTicketList payload) s =
     (case updateTicketList formatDate payload s of Inl (e, s') \<Rightarrow> s' | Inr s' \<Rightarrow> s')"

fun run :: "formatter \<Rightarrow> event list \<Rightarrow> state \<Rightarrow> state" where
  "run formatDate [] s = s"
| "run formatDate (e # es) s = run formatDate es (handle formatDate e s)"

section \<open>Vocabulary of the statements\<close>

text \<open>The value a property read gives where it does not throw.\<close>

definition field :: "jsval \<Rightarrow> string \<Rightarrow> jsval" where
  "field v k = (case getProp v k of Inl e \<Rightarrow> JUndefined | Inr x \<Rightarrow> x)"

fun asString :: "jsval \<Rightarrow> string option" where
  "asString (JStr s) = Some s"
| "asString v = None"

fun nullish :: "jsval \<Rightarrow> bool" where
  "nullish JUndefined = True"
| "nullish JNull = True"
| "nullish v = False"

text \<open>A row that carries \<^verbatim>\<open>subject\<close> and \<^verbatim>\<open>description\<close> as strings.\<close>

definition stringFields :: "jsval \<Rightarrow> bool" where
  "stringFields r =
     (asString (field r ''subject'') \<noteq> None \<and> asString (field r ''description'') \<noteq> None)"

text \<open>
  The lowercased property \<open>k\<close> of the row is a string that contains the lowercased query
  as a substring.
\<close>

definition fieldContains :: "string \<Rightarrow> jsval \<Rightarrow> string \<Rightarrow> bool" where
  "fieldContains q r k =
     (case asString (field r k) of
        None \<Rightarrow> False
      | Some s \<Rightarrow> sublist (toLowerCase q) (toLowerCase s))"

text \<open>The filter as the specification words it: subject or description contains the query.\<close>

definition spec_matches :: "string \<Rightarrow> jsval \<Rightarrow> bool" where
  "spec_matches q r = (fieldContains q r ''subject'' \<or> fieldContains q r ''description'')"

text \<open>
  The display row as the specification describes it for a backend record: sequence
  number \<open>n\<close>, \<^verbatim>\<open>description\<close> from \<^verbatim>\<open>description_text\<close>, the two dates formatted with the fixed
  mask, the other fields passed through.
\<close>

definition specRow :: "formatter \<Rightarrow> int \<Rightarrow> jsval \<Rightarrow> jsval" where
  "specRow formatDate n record =
     JObj
       [(''#'', JNum n),
        (''id'', field record ''id''),
        (''subject'', field record ''subject''),
        (''description'', field record ''description_text''),
        (''status'', field record ''status''),
        (''created'', formatDate (field record ''created_at'') ''YYYY-MM-DDTHH:mm:ssZ''),
        (''updated'', formatDate (field record ''updated_at'') ''YYYY-MM-DDTHH:mm:ssZ''),
        (''comments'', field record ''comments'')]"

text \<open>
  Every handler only appends to the trace, and a \<open>Dismiss\<close> it appends names a
  notification that the same handler raised.
\<close>

definition extends :: "state \<Rightarrow> state \<Rightarrow> bool" where
  "extends s s' =
     (\<exists>new. effects s' = effects s @ new \<and>
        (\<forall>m. Dismiss m \<in> set new \<longrightarrow> length (effects s) \<le> m))"

text \<open>
  The theorems hold for every formatter. Closed instances need one: \<open>sameText\<close> gives
  back the value it is handed.
\<close>

definition sameText :: formatter where
  "sameText v pattern = v"

text \<open>
  The library's \<^verbatim>\<open>date.formatDate\<close> in a runtime whose time zone is UTC, on the fragment
  that the worked example of the specification needs: the mask of this component and a
  date string of the form \<^verbatim>\<open>YYYY-MM-DDTHH:mm:ssZ\<close> (year 1000 to 9999, day 01 to 28). Such
  a string names an instant in UTC, so in that runtime its local fields are the ones
  written in it. The library replaces the tokens \<^verbatim>\<open>YYYY\<close>, \<^verbatim>\<open>MM\<close>, \<^verbatim>\<open>DD\<close>, \<^verbatim>\<open>HH\<close>, \<^verbatim>\<open>mm\<close> and \<^verbatim>\<open>ss\<close> of
  the mask by those fields, padded to two digits, leaves \<^verbatim>\<open>-\<close>, \<^verbatim>\<open>T\<close> and \<^verbatim>\<open>:\<close> as they are, and
  replaces the token \<^verbatim>\<open>Z\<close> by the offset of the runtime's zone from UTC, written
  \<^verbatim>\<open>+00:00\<close>. It returns \<^verbatim>\<open>undefined\<close> for \<^verbatim>\<open>undefined\<close>, \<^verbatim>\<open>null\<close> and the empty string. Every
  other value and mask is outside the fragment; \<open>quasarUTC\<close> gives \<open>JUndefined\<close> there.
\<close>

definition digitOf :: "char \<Rightarrow> nat option" where
  "digitOf c =
     (let n = (of_char c :: nat) in if 48 \<le> n \<and> n \<le> 57 then Some (n - 48) else None)"

fun numberOf :: "nat \<Rightarrow> string \<Rightarrow> nat option" where
  "numberOf acc [] = Some acc"
| "numberOf acc (c # cs) =
     (case digitOf c of None \<Rightarrow> None | Some d \<Rightarrow> numberOf (10 * acc + d) cs)"

definition pad :: "nat \<Rightarrow> string" where
  "pad n = [char_of (48 + n div 10), char_of (48 + n mod 10)]"

definition parseIsoUTC :: "string \<Rightarrow> (nat \<times> nat \<times> nat \<times> nat \<times> nat \<times> nat) option" where
  "parseIsoUTC s =
     (if length s = 20 \<and> s ! 4 = CHR ''-'' \<and> s ! 7 = CHR ''-'' \<and> s ! 10 = CHR ''T'' \<and>
         s ! 13 = CHR '':'' \<and> s ! 16 = CHR '':'' \<and> s ! 19 = CHR ''Z''
      then
        (case (numberOf 0 (take 4 s), numberOf 0 (take 2 (drop 5 s)),
               numberOf 0 (take 2 (drop 8 s)), numberOf 0 (take 2 (drop 11 s)),
               numberOf 0 (take 2 (drop 14 s)), numberOf 0 (take 2 (drop 17 s))) of
           (Some y, Some mo, Some d, Some h, Some mi, Some se) \<Rightarrow>
             if 1000 \<le> y \<and> 1 \<le> mo \<and> mo \<le> 12 \<and> 1 \<le> d \<and> d \<le> 28 \<and>
                h \<le> 23 \<and> mi \<le> 59 \<and> se \<le> 59
             then Some (y, mo, d, h, mi, se) else None
         | _ \<Rightarrow> None)
      else None)"

definition quasarUTC :: formatter where
  "quasarUTC v pattern =
     (case v of
        JStr s \<Rightarrow>
          (case parseIsoUTC s of
             Some (y, mo, d, h, mi, se) \<Rightarrow>
               if pattern = ''YYYY-MM-DDTHH:mm:ssZ''
               then JStr (pad (y div 100) @ pad (y mod 100) @ ''-'' @ pad mo @ ''-'' @ pad d @
                          ''T'' @ pad h @ '':'' @ pad mi @ '':'' @ pad se @ ''+00:00'')
               else JUndefined
           | None \<Rightarrow> JUndefined)
      | _ \<Rightarrow> JUndefined)"

section \<open>The filter: what it returns and when it throws\<close>

lemma str_includes_sublist: "str_includes s t = sublist t s"
  by (induction s) (auto simp: sublist_Cons_right)

lemma callToLowerCase_asString:
  "callToLowerCase v = (case asString v of None \<Rightarrow> Inl TypeError | Some s \<Rightarrow> Inr (toLowerCase s))"
  by (cases v) simp_all

lemma fieldIncludes_asString:
  "fieldIncludes r k t =
     (case asString (field r k) of
        None \<Rightarrow> Inl TypeError
      | Some s \<Rightarrow> Inr (sublist t (toLowerCase s)))"
proof (cases "getProp r k")
  case (Inl e)
  then show ?thesis by (cases e) (simp add: fieldIncludes_def field_def)
next
  case (Inr x)
  then show ?thesis
    by (simp add: fieldIncludes_def field_def callToLowerCase_asString str_includes_sublist
        split: option.splits bool.splits)
qed

lemma rowCond_throws:
  "rowCond r (toLowerCase q) = Inl TypeError \<longleftrightarrow>
     asString (field r ''subject'') = None \<or>
     (\<not> fieldContains q r ''subject'' \<and> asString (field r ''description'') = None)"
  by (auto simp: rowCond_def fieldIncludes_asString fieldContains_def split: option.splits bool.splits)

lemma rowCond_stringFields:
  "stringFields r \<Longrightarrow> rowCond r (toLowerCase q) = Inr (spec_matches q r)"
  by (auto simp: rowCond_def fieldIncludes_asString fieldContains_def spec_matches_def
      stringFields_def split: option.splits bool.splits)

lemma filterData_loop_result:
  "filterData_loop v =
     (if \<exists>r\<in>set (drop (fd_i v) (fd_rows v)). rowCond r (fd_terms v) = Inl TypeError
      then Inl TypeError
      else Inr (v\<lparr>fd_filtered :=
                    fd_filtered v @
                    filter (\<lambda>r. rowCond r (fd_terms v) = Inr True) (drop (fd_i v) (fd_rows v)),
                  fd_i := max (fd_i v) (length (fd_rows v))\<rparr>))"
proof (induction v rule: filterData_loop.induct)
  case (1 v)
  show ?case
  proof (cases "fd_i v < length (fd_rows v)")
    case False
    then show ?thesis by (simp add: filterData_loop.simps [of v] max_def)
  next
    case True
    then have d: "drop (fd_i v) (fd_rows v) = fd_rows v ! fd_i v # drop (Suc (fd_i v)) (fd_rows v)"
      by (simp add: Cons_nth_drop_Suc)
    show ?thesis
    proof (cases "rowCond (fd_rows v ! fd_i v) (fd_terms v)")
      case (Inl e)
      then show ?thesis using True d by (cases e) (simp add: filterData_loop.simps [of v])
    next
      case (Inr b)
      from "1.IH" [OF True Inr] True Inr d show ?thesis
        by (cases b) (simp_all add: filterData_loop.simps [of v] max_def)
    qed
  qed
qed

lemma filterData_run_result:
  "filterData_run rows q =
     (if \<exists>r\<in>set rows. rowCond r (toLowerCase q) = Inl TypeError then Inl TypeError
      else Inr \<lparr>fd_rows = rows, fd_terms = toLowerCase q,
                fd_filtered = filter (\<lambda>r. rowCond r (toLowerCase q) = Inr True) rows,
                fd_i = length rows\<rparr>)"
  by (simp add: filterData_run_def filterData_loop_result)

lemma filterData_result:
  "filterData rows q =
     (if \<exists>r\<in>set rows. rowCond r (toLowerCase q) = Inl TypeError then Inl TypeError
      else Inr (filter (\<lambda>r. rowCond r (toLowerCase q) = Inr True) rows))"
  by (simp add: filterData_def filterData_run_result)

lemma filterData_stringFields:
  assumes "\<forall>r\<in>set rows. stringFields r"
  shows "filterData rows q = Inr (filter (spec_matches q) rows)"
proof -
  have a: "\<And>r. r \<in> set rows \<Longrightarrow> rowCond r (toLowerCase q) = Inr (spec_matches q r)"
    using assms by (simp add: rowCond_stringFields)
  then have "\<not> (\<exists>r\<in>set rows. rowCond r (toLowerCase q) = Inl TypeError)" by auto
  moreover have "filter (\<lambda>r. rowCond r (toLowerCase q) = Inr True) rows = filter (spec_matches q) rows"
    by (rule filter_cong) (auto simp: a)
  ultimately show ?thesis by (simp add: filterData_result)
qed

text \<open>
  Claim C1. For every list of rows whose \<^verbatim>\<open>subject\<close> and \<^verbatim>\<open>description\<close> are strings and
  every query \<open>q\<close>, \<^verbatim>\<open>filterData(rows, q)\<close> returns exactly the rows whose lowercased
  subject or lowercased description contains the lowercased query as a substring, in
  their original order; a row that matches in neither field is left out.
\<close>

theorem filterData_retains_matching:
  assumes "\<forall>r\<in>set rows. stringFields r"
  shows "filterData rows q = Inr (filter (spec_matches q) rows)"
  using assms by (rule filterData_stringFields)

theorem filterData_retains_matching_witness:
  "list_all stringFields
     [JObj [(''subject'', JStr ''Login Issue''), (''description'', JStr ''cannot log in'')],
      JObj [(''subject'', JStr ''Billing''), (''description'', JStr ''Invoice LOGIN page'')],
      JObj [(''subject'', JStr ''Other''), (''description'', JStr ''nothing'')]] \<and>
   filterData
     [JObj [(''subject'', JStr ''Login Issue''), (''description'', JStr ''cannot log in'')],
      JObj [(''subject'', JStr ''Billing''), (''description'', JStr ''Invoice LOGIN page'')],
      JObj [(''subject'', JStr ''Other''), (''description'', JStr ''nothing'')]] ''LogIn'' =
   Inr [JObj [(''subject'', JStr ''Login Issue''), (''description'', JStr ''cannot log in'')],
        JObj [(''subject'', JStr ''Billing''), (''description'', JStr ''Invoice LOGIN page'')]]"
proof -
  let ?rows = "[JObj [(''subject'', JStr ''Login Issue''), (''description'', JStr ''cannot log in'')],
              JObj [(''subject'', JStr ''Billing''), (''description'', JStr ''Invoice LOGIN page'')],
              JObj [(''subject'', JStr ''Other''), (''description'', JStr ''nothing'')]]"
  have h: "\<forall>r\<in>set ?rows. stringFields r"
    by (simp add: stringFields_def field_def)
  have e: "filter (spec_matches ''LogIn'') ?rows = take 2 ?rows"
    by code_simp
  from filterData_retains_matching [OF h, of "''LogIn''"] e h show ?thesis by simp
qed

lemma spec_matches_empty:
  "stringFields r \<Longrightarrow> spec_matches [] r"
  by (auto simp: spec_matches_def fieldContains_def stringFields_def toLowerCase_def)

lemma fieldContains_too_long:
  assumes "asString (field r k) = Some s"
  shows "\<not> fieldContains (replicate (Suc (length s)) c) r k"
proof
  assume "fieldContains (replicate (Suc (length s)) c) r k"
  with assms have "sublist (toLowerCase (replicate (Suc (length s)) c)) (toLowerCase s)"
    by (simp add: fieldContains_def)
  then have "length (toLowerCase (replicate (Suc (length s)) c)) \<le> length (toLowerCase s)"
    by (rule sublist_length_le)
  then show False by (simp add: toLowerCase_def)
qed

lemma filterData_throws_for_some_query:
  assumes "r \<in> set rows" and "\<not> stringFields r"
  shows "\<exists>q. filterData rows q = Inl TypeError"
proof (cases "asString (field r ''subject'')")
  case None
  then have "rowCond r (toLowerCase []) = Inl TypeError"
    by (simp add: rowCond_throws)
  with assms(1) have "filterData rows [] = Inl TypeError"
    by (auto simp: filterData_result)
  then show ?thesis ..
next
  case (Some s)
  let ?q = "replicate (Suc (length s)) CHR ''a''"
  from Some assms(2) have "asString (field r ''description'') = None"
    by (simp add: stringFields_def)
  moreover from Some have "\<not> fieldContains ?q r ''subject''"
    by (rule fieldContains_too_long)
  ultimately have "rowCond r (toLowerCase ?q) = Inl TypeError"
    by (simp add: rowCond_throws)
  with assms(1) have "filterData rows ?q = Inl TypeError"
    by (auto simp: filterData_result)
  then show ?thesis ..
qed

text \<open>
  Claim C2. For rows with string \<^verbatim>\<open>subject\<close> and \<^verbatim>\<open>description\<close> and every query, the call
  returns, its result is a subsequence of the rows in their original order, and the
  variable \<^verbatim>\<open>rows\<close> holds at the \<^verbatim>\<open>return\<close> the list it was passed, with every row as it
  was: the loop only reads it. The function takes no component state and returns none.
\<close>

theorem filterData_subsequence_pure:
  assumes "\<forall>r\<in>set rows. stringFields r"
  shows "\<exists>v. filterData_run rows q = Inr v \<and> filterData rows q = Inr (fd_filtered v) \<and>
             subseq (fd_filtered v) rows \<and> fd_rows v = rows"
proof -
  have "\<not> (\<exists>r\<in>set rows. rowCond r (toLowerCase q) = Inl TypeError)"
    using assms by (auto simp: rowCond_stringFields)
  then show ?thesis
    by (simp add: filterData_def filterData_run_result)
qed

theorem filterData_subsequence_pure_witness:
  "list_all stringFields
     [JObj [(''subject'', JStr ''Login Issue''), (''description'', JStr ''cannot log in'')],
      JObj [(''subject'', JStr ''Other''), (''description'', JStr ''nothing'')]] \<and>
   (\<exists>v. filterData_run
          [JObj [(''subject'', JStr ''Login Issue''), (''description'', JStr ''cannot log in'')],
           JObj [(''subject'', JStr ''Other''), (''description'', JStr ''nothing'')]] ''other'' = Inr v \<and>
        filterData
          [JObj [(''subject'', JStr ''Login Issue''), (''description'', JStr ''cannot log in'')],
           JObj [(''subject'', JStr ''Other''), (''description'', JStr ''nothing'')]] ''other'' =
          Inr (fd_filtered v) \<and>
        subseq (fd_filtered v)
          [JObj [(''subject'', JStr ''Login Issue''), (''description'', JStr ''cannot log in'')],
           JObj [(''subject'', JStr ''Other''), (''description'', JStr ''nothing'')]] \<and>
        fd_rows v =
          [JObj [(''subject'', JStr ''Login Issue''), (''description'', JStr ''cannot log in'')],
           JObj [(''subject'', JStr ''Other''), (''description'', JStr ''nothing'')]])"
proof -
  let ?rows = "[JObj [(''subject'', JStr ''Login Issue''), (''description'', JStr ''cannot log in'')],
      JObj [(''subject'', JStr ''Other''), (''description'', JStr ''nothing'')]]"
  have h: "\<forall>r\<in>set ?rows. stringFields r"
    by (simp add: stringFields_def field_def)
  from filterData_subsequence_pure [OF h, of "''other''"] h show ?thesis
    by (simp only: list_all_iff simp_thms)
qed

text \<open>
  Claim C3. For rows with string \<^verbatim>\<open>subject\<close> and \<^verbatim>\<open>description\<close>, the empty query returns
  all rows: the same elements in the same order.
\<close>

theorem filterData_empty_query:
  assumes "\<forall>r\<in>set rows. stringFields r"
  shows "filterData rows [] = Inr rows"
proof -
  have "filter (spec_matches []) rows = rows"
    using assms by (simp add: spec_matches_empty)
  with filterData_stringFields [OF assms, of "[]"] show ?thesis by simp
qed

theorem filterData_empty_query_witness:
  "list_all stringFields
     [JObj [(''subject'', JStr ''Foo''), (''description'', JStr ''first'')],
      JObj [(''subject'', JStr ''bar''), (''description'', JStr '''')]] \<and>
   filterData
     [JObj [(''subject'', JStr ''Foo''), (''description'', JStr ''first'')],
      JObj [(''subject'', JStr ''bar''), (''description'', JStr '''')]] '''' =
   Inr [JObj [(''subject'', JStr ''Foo''), (''description'', JStr ''first'')],
        JObj [(''subject'', JStr ''bar''), (''description'', JStr '''')]]"
proof -
  let ?rows = "[JObj [(''subject'', JStr ''Foo''), (''description'', JStr ''first'')],
      JObj [(''subject'', JStr ''bar''), (''description'', JStr '''')]]"
  have h: "\<forall>r\<in>set ?rows. stringFields r"
    by (simp add: stringFields_def field_def)
  from filterData_empty_query [OF h] h show ?thesis
    by (simp only: list_all_iff simp_thms)
qed

text \<open>
  Claim C10 as stated fails: a row without a \<^verbatim>\<open>description\<close> whose subject contains the
  query is returned, for the empty query and for a non-empty one, because \<^verbatim>\<open>||\<close> does
  not evaluate the description once the subject has matched.
\<close>

theorem filterData_malformed_row_counterexample:
  "\<not> stringFields (JObj [(''subject'', JStr ''Login issue'')]) \<and>
   filterData [JObj [(''subject'', JStr ''Login issue'')]] '''' =
     Inr [JObj [(''subject'', JStr ''Login issue'')]] \<and>
   filterData [JObj [(''subject'', JStr ''Login issue'')]] ''LOGIN'' =
     Inr [JObj [(''subject'', JStr ''Login issue'')]]"
proof -
  let ?r = "JObj [(''subject'', JStr ''Login issue'')]"
  have a: "\<not> stringFields ?r"
    by (simp add: stringFields_def field_def)
  have b: "rowCond ?r (toLowerCase '''') = Inr True"
    by code_simp
  have c: "rowCond ?r (toLowerCase ''LOGIN'') = Inr True"
    by code_simp
  show ?thesis
    using a b c by (simp add: filterData_result)
qed

text \<open>
  Claim C10, amended. For every query \<open>q\<close>, \<^verbatim>\<open>filterData\<close> throws exactly when some row
  lacks a string \<^verbatim>\<open>subject\<close>, or lacks a string \<^verbatim>\<open>description\<close> while its lowercased subject
  does not contain the lowercased \<open>q\<close>. The filter returns for every query exactly when
  every row carries both fields as strings.
\<close>

theorem filterData_throws_iff:
  "(filterData rows q = Inl TypeError \<longleftrightarrow>
      (\<exists>r\<in>set rows.
         asString (field r ''subject'') = None \<or>
         (\<not> fieldContains q r ''subject'' \<and> asString (field r ''description'') = None))) \<and>
   ((\<forall>q'. \<exists>res. filterData rows q' = Inr res) \<longleftrightarrow> (\<forall>r\<in>set rows. stringFields r))"
proof (intro conjI)
  show "filterData rows q = Inl TypeError \<longleftrightarrow>
      (\<exists>r\<in>set rows.
         asString (field r ''subject'') = None \<or>
         (\<not> fieldContains q r ''subject'' \<and> asString (field r ''description'') = None))"
    by (simp add: filterData_result rowCond_throws)
next
  show "(\<forall>q'. \<exists>res. filterData rows q' = Inr res) \<longleftrightarrow> (\<forall>r\<in>set rows. stringFields r)"
  proof
    assume total: "\<forall>q'. \<exists>res. filterData rows q' = Inr res"
    show "\<forall>r\<in>set rows. stringFields r"
    proof
      fix r assume "r \<in> set rows"
      show "stringFields r"
      proof (rule ccontr)
        assume "\<not> stringFields r"
        with \<open>r \<in> set rows\<close> obtain q' where "filterData rows q' = Inl TypeError"
          using filterData_throws_for_some_query by blast
        with total show False by (metis Inl_Inr_False)
      qed
    qed
  next
    assume "\<forall>r\<in>set rows. stringFields r"
    then show "\<forall>q'. \<exists>res. filterData rows q' = Inr res"
      by (simp add: filterData_stringFields)
  qed
qed

theorem filterData_throws_iff_witness:
  "filterData [JObj [(''subject'', JStr ''Billing'')]] ''login'' = Inl TypeError \<and>
   filterData [JObj [(''subject'', JStr ''Login issue'')]] ''login'' \<noteq> Inl TypeError \<and>
   filterData [JObj [(''description'', JStr ''Login issue'')]] ''login'' = Inl TypeError"
proof -
  have a: "\<not> fieldContains ''login'' (JObj [(''subject'', JStr ''Billing'')]) ''subject''"
    by code_simp
  have b: "fieldContains ''login'' (JObj [(''subject'', JStr ''Login issue'')]) ''subject''"
    by code_simp
  show ?thesis
    using a b
      filterData_throws_iff [of "[JObj [(''subject'', JStr ''Billing'')]]" "''login''"]
      filterData_throws_iff [of "[JObj [(''subject'', JStr ''Login issue'')]]" "''login''"]
      filterData_throws_iff [of "[JObj [(''description'', JStr ''Login issue'')]]" "''login''"]
    by (simp add: field_def)
qed

section \<open>Loading and appending rows\<close>

lemma getProp_field:
  "getProp v k = (if nullish v then Inl TypeError else Inr (field v k))"
  by (cases v) (simp_all add: field_def)

lemma ticketRow_specRow:
  "ticketRow formatDate n data =
     (if nullish data then Inl TypeError else Inr (specRow formatDate n data))"
  by (simp add: ticketRow_def bindE_def getProp_field specRow_def)

lemma mapTickets_rows:
  assumes "\<forall>d\<in>set records. \<not> nullish d"
  shows "\<exists>rows. mapTickets formatDate counter records = Inr rows \<and>
           length rows = length records \<and>
           (\<forall>k<length records. rows ! k = specRow formatDate (counter + int k) (records ! k))"
  using assms
proof (induction records arbitrary: counter)
  case Nil
  then show ?case by simp
next
  case (Cons d ds)
  from Cons.prems have ds: "\<forall>d\<in>set ds. \<not> nullish d" and d: "\<not> nullish d"
    by simp_all
  from Cons.IH [OF ds, of "counter + 1"]
  obtain rows where rows: "mapTickets formatDate (counter + 1) ds = Inr rows"
      "length rows = length ds"
      "\<forall>k<length ds. rows ! k = specRow formatDate (counter + 1 + int k) (ds ! k)"
    by blast
  have "\<forall>k<length (d # ds).
          (specRow formatDate counter d # rows) ! k =
          specRow formatDate (counter + int k) ((d # ds) ! k)"
  proof (intro allI impI)
    fix k assume "k < length (d # ds)"
    then show "(specRow formatDate counter d # rows) ! k =
          specRow formatDate (counter + int k) ((d # ds) ! k)"
      using rows(3) by (cases k) (simp_all add: add.assoc)
  qed
  with rows(1,2) d show ?case
    by (simp add: ticketRow_specRow)
qed

lemma getTickets_resolved:
  assumes "mapTickets formatDate 1 records = Inr rows"
  shows "getTickets formatDate (Resolved records) s =
           s\<lparr>tickets := rows,
             effects := effects s @
               [Notify (Spinner ''Please wait while loading tickets...''),
                ListRequest 0 100000 ''subject'' False '''',
                Dismiss (length (effects s))]\<rparr>"
  using assms by (simp add: getTickets_def emit_def Let_def)

lemma getTickets_effects:
  "\<exists>rest. effects (getTickets formatDate res s) =
            effects s @
              [Notify (Spinner ''Please wait while loading tickets...''),
               ListRequest 0 100000 ''subject'' False ''''] @ rest \<and>
          (\<forall>x. DeleteRequest x \<notin> set rest)"
  by (auto simp: getTickets_def emit_def Let_def split: outcome.splits sum.splits)

lemma quasarUTC_example:
  "quasarUTC (JStr ''2023-01-01T00:00:00Z'') ''YYYY-MM-DDTHH:mm:ssZ'' =
     JStr ''2023-01-01T00:00:00+00:00''"
  by code_simp

lemma getTickets_worked_example:
  "tickets (getTickets formatDate
     (Resolved
        [JObj [(''id'', JStr ''t1''), (''subject'', JStr ''Login issue''),
               (''description_text'', JStr ''Cannot log in''), (''status'', JStr ''open''),
               (''created_at'', JStr ''2023-01-01T00:00:00Z''),
               (''updated_at'', JStr ''2023-01-01T00:00:00Z''),
               (''comments'', JArr [])]]) s) =
     [JObj [(''#'', JNum 1), (''id'', JStr ''t1''), (''subject'', JStr ''Login issue''),
            (''description'', JStr ''Cannot log in''), (''status'', JStr ''open''),
            (''created'', formatDate (JStr ''2023-01-01T00:00:00Z'') ''YYYY-MM-DDTHH:mm:ssZ''),
            (''updated'', formatDate (JStr ''2023-01-01T00:00:00Z'') ''YYYY-MM-DDTHH:mm:ssZ''),
            (''comments'', JArr [])]]"
  by (simp add: getTickets_def emit_def Let_def ticketRow_specRow specRow_def field_def)

text \<open>
  Claim C4 as stated fails in its last part: for the record of the specification's
  worked example the code does not produce the row of that example. With the library's
  formatter in a UTC runtime the two dates of the row end in the offset \<^verbatim>\<open>+00:00\<close>, which
  the token \<^verbatim>\<open>Z\<close> of the mask stands for, and not in the letter \<^verbatim>\<open>Z\<close>.
\<close>

theorem getTickets_example_dates_counterexample:
  "tickets (getTickets quasarUTC
     (Resolved
        [JObj [(''id'', JStr ''t1''), (''subject'', JStr ''Login issue''),
               (''description_text'', JStr ''Cannot log in''), (''status'', JStr ''open''),
               (''created_at'', JStr ''2023-01-01T00:00:00Z''),
               (''updated_at'', JStr ''2023-01-01T00:00:00Z''),
               (''comments'', JArr [])]]) initial) =
     [JObj [(''#'', JNum 1), (''id'', JStr ''t1''), (''subject'', JStr ''Login issue''),
            (''description'', JStr ''Cannot log in''), (''status'', JStr ''open''),
            (''created'', JStr ''2023-01-01T00:00:00+00:00''),
            (''updated'', JStr ''2023-01-01T00:00:00+00:00''),
            (''comments'', JArr [])]] \<and>
   tickets (getTickets quasarUTC
     (Resolved
        [JObj [(''id'', JStr ''t1''), (''subject'', JStr ''Login issue''),
               (''description_text'', JStr ''Cannot log in''), (''status'', JStr ''open''),
               (''created_at'', JStr ''2023-01-01T00:00:00Z''),
               (''updated_at'', JStr ''2023-01-01T00:00:00Z''),
               (''comments'', JArr [])]]) initial) \<noteq>
     [JObj [(''#'', JNum 1), (''id'', JStr ''t1''), (''subject'', JStr ''Login issue''),
            (''description'', JStr ''Cannot log in''), (''status'', JStr ''open''),
            (''created'', JStr ''2023-01-01T00:00:00Z''),
            (''updated'', JStr ''2023-01-01T00:00:00Z''),
            (''comments'', JArr [])]]"
  by (simp add: getTickets_worked_example quasarUTC_example)

text \<open>
  Claim C4, amended. When the \<^verbatim>\<open>list\<close> call of \<^verbatim>\<open>getTickets\<close> resolves with N backend records,
  the row list has exactly N rows; the row at position k (from 0) has sequence number
  k + 1, whatever its \<^verbatim>\<open>id\<close>, and is the record mapped field by field: \<^verbatim>\<open>description\<close> from
  \<^verbatim>\<open>description_text\<close>, \<^verbatim>\<open>created\<close> and \<^verbatim>\<open>updated\<close> the formatter's results on \<^verbatim>\<open>created_at\<close> and
  \<^verbatim>\<open>updated_at\<close> with the mask \<^verbatim>\<open>YYYY-MM-DDTHH:mm:ssZ\<close>, the other fields passed through. For
  the record of the specification's worked example the row is the one of that example
  except for its two dates, which are what the formatter returns for
  \<^verbatim>\<open>2023-01-01T00:00:00Z\<close>: with the library's formatter in a UTC runtime,
  \<^verbatim>\<open>2023-01-01T00:00:00+00:00\<close>.
\<close>

theorem getTickets_maps_in_order:
  assumes "\<forall>d\<in>set records. \<not> nullish d"
  shows "length (tickets (getTickets formatDate (Resolved records) s)) = length records \<and>
         (\<forall>k<length records.
            tickets (getTickets formatDate (Resolved records) s) ! k =
              specRow formatDate (int k + 1) (records ! k) \<and>
            field (tickets (getTickets formatDate (Resolved records) s) ! k) ''#'' =
              JNum (int k + 1)) \<and>
         tickets (getTickets formatDate
            (Resolved
              [JObj [(''id'', JStr ''t1''), (''subject'', JStr ''Login issue''),
                     (''description_text'', JStr ''Cannot log in''), (''status'', JStr ''open''),
                     (''created_at'', JStr ''2023-01-01T00:00:00Z''),
                     (''updated_at'', JStr ''2023-01-01T00:00:00Z''),
                     (''comments'', JArr [])]]) s) =
           [JObj [(''#'', JNum 1), (''id'', JStr ''t1''), (''subject'', JStr ''Login issue''),
                  (''description'', JStr ''Cannot log in''), (''status'', JStr ''open''),
                  (''created'', formatDate (JStr ''2023-01-01T00:00:00Z'') ''YYYY-MM-DDTHH:mm:ssZ''),
                  (''updated'', formatDate (JStr ''2023-01-01T00:00:00Z'') ''YYYY-MM-DDTHH:mm:ssZ''),
                  (''comments'', JArr [])]] \<and>
         tickets (getTickets quasarUTC
            (Resolved
              [JObj [(''id'', JStr ''t1''), (''subject'', JStr ''Login issue''),
                     (''description_text'', JStr ''Cannot log in''), (''status'', JStr ''open''),
                     (''created_at'', JStr ''2023-01-01T00:00:00Z''),
                     (''updated_at'', JStr ''2023-01-01T00:00:00Z''),
                     (''comments'', JArr [])]]) s) =
           [JObj [(''#'', JNum 1), (''id'', JStr ''t1''), (''subject'', JStr ''Login issue''),
                  (''description'', JStr ''Cannot log in''), (''status'', JStr ''open''),
                  (''created'', JStr ''2023-01-01T00:00:00+00:00''),
                  (''updated'', JStr ''2023-01-01T00:00:00+00:00''),
                  (''comments'', JArr [])]]"
proof -
  from mapTickets_rows [OF assms, of formatDate 1]
  obtain rows where rows: "mapTickets formatDate 1 records = Inr rows"
      "length rows = length records"
      "\<forall>k<length records. rows ! k = specRow formatDate (1 + int k) (records ! k)"
    by blast
  have t: "tickets (getTickets formatDate (Resolved records) s) = rows"
    by (simp add: getTickets_resolved [OF rows(1)])
  have general: "\<forall>k<length records.
            rows ! k = specRow formatDate (int k + 1) (records ! k) \<and>
            field (rows ! k) ''#'' = JNum (int k + 1)"
  proof (intro allI impI)
    fix k assume "k < length records"
    with rows(3) have "rows ! k = specRow formatDate (1 + int k) (records ! k)" by blast
    moreover have "1 + int k = int k + 1" by simp
    ultimately have r: "rows ! k = specRow formatDate (int k + 1) (records ! k)" by simp
    have "field (specRow formatDate (int k + 1) (records ! k)) ''#'' = JNum (int k + 1)"
      by (simp add: specRow_def field_def)
    with r show "rows ! k = specRow formatDate (int k + 1) (records ! k) \<and>
            field (rows ! k) ''#'' = JNum (int k + 1)" by simp
  qed
  have utc: "tickets (getTickets quasarUTC
            (Resolved
              [JObj [(''id'', JStr ''t1''), (''subject'', JStr ''Login issue''),
                     (''description_text'', JStr ''Cannot log in''), (''status'', JStr ''open''),
                     (''created_at'', JStr ''2023-01-01T00:00:00Z''),
                     (''updated_at'', JStr ''2023-01-01T00:00:00Z''),
                     (''comments'', JArr [])]]) s) =
           [JObj [(''#'', JNum 1), (''id'', JStr ''t1''), (''subject'', JStr ''Login issue''),
                  (''description'', JStr ''Cannot log in''), (''status'', JStr ''open''),
                  (''created'', JStr ''2023-01-01T00:00:00+00:00''),
                  (''updated'', JStr ''2023-01-01T00:00:00+00:00''),
                  (''comments'', JArr [])]]"
    by (simp add: getTickets_worked_example quasarUTC_example)
  show ?thesis
    unfolding t by (intro conjI rows(2) general getTickets_worked_example utc)
qed

theorem getTickets_maps_in_order_witness:
  "list_all (\<lambda>d. \<not> nullish d)
     [JObj [(''id'', JStr ''zz''), (''subject'', JStr ''B''),
            (''description_text'', JStr ''second''), (''status'', JStr ''open''),
            (''created_at'', JStr ''2023-03-05T10:20:30Z''),
            (''updated_at'', JStr ''2023-03-06T00:00:00Z''), (''comments'', JArr [])],
      JObj [(''id'', JStr ''aa''), (''subject'', JStr ''A''),
            (''description_text'', JStr ''first''), (''status'', JStr ''closed''),
            (''created_at'', JStr ''2022-12-28T23:59:07Z''),
            (''updated_at'', JStr ''2023-01-01T00:00:00Z''),
            (''comments'', JArr [JStr ''done''])]] \<and>
   tickets (pageSetup quasarUTC
     (Resolved
       [JObj [(''id'', JStr ''zz''), (''subject'', JStr ''B''),
              (''description_text'', JStr ''second''), (''status'', JStr ''open''),
              (''created_at'', JStr ''2023-03-05T10:20:30Z''),
              (''updated_at'', JStr ''2023-03-06T00:00:00Z''), (''comments'', JArr [])],
        JObj [(''id'', JStr ''aa''), (''subject'', JStr ''A''),
              (''description_text'', JStr ''first''), (''status'', JStr ''closed''),
              (''created_at'', JStr ''2022-12-28T23:59:07Z''),
              (''updated_at'', JStr ''2023-01-01T00:00:00Z''),
              (''comments'', JArr [JStr ''done''])]])) ! 1 =
   JObj [(''#'', JNum 2), (''id'', JStr ''aa''), (''subject'', JStr ''A''),
         (''description'', JStr ''first''), (''status'', JStr ''closed''),
         (''created'', JStr ''2022-12-28T23:59:07+00:00''),
         (''updated'', JStr ''2023-01-01T00:00:00+00:00''),
         (''comments'', JArr [JStr ''done''])] \<and>
   length (tickets (pageSetup quasarUTC
     (Resolved
       [JObj [(''id'', JStr ''zz''), (''subject'', JStr ''B''),
              (''description_text'', JStr ''second''), (''status'', JStr ''open''),
              (''created_at'', JStr ''2023-03-05T10:20:30Z''),
              (''updated_at'', JStr ''2023-03-06T00:00:00Z''), (''comments'', JArr [])],
        JObj [(''id'', JStr ''aa''), (''subject'', JStr ''A''),
              (''description_text'', JStr ''first''), (''status'', JStr ''closed''),
              (''created_at'', JStr ''2022-12-28T23:59:07Z''),
              (''updated_at'', JStr ''2023-01-01T00:00:00Z''),
              (''comments'', JArr [JStr ''done''])]]))) = 2"
proof -
  let ?datas = "[JObj [(''id'', JStr ''zz''), (''subject'', JStr ''B''),
            (''description_text'', JStr ''second''), (''status'', JStr ''open''),
            (''created_at'', JStr ''2023-03-05T10:20:30Z''),
            (''updated_at'', JStr ''2023-03-06T00:00:00Z''), (''comments'', JArr [])],
      JObj [(''id'', JStr ''aa''), (''subject'', JStr ''A''),
            (''description_text'', JStr ''first''), (''status'', JStr ''closed''),
            (''created_at'', JStr ''2022-12-28T23:59:07Z''),
            (''updated_at'', JStr ''2023-01-01T00:00:00Z''),
            (''comments'', JArr [JStr ''done''])]]"
  have h: "\<forall>d\<in>set ?datas. \<not> nullish d" by simp
  have c: "quasarUTC (JStr ''2022-12-28T23:59:07Z'') ''YYYY-MM-DDTHH:mm:ssZ'' =
             JStr ''2022-12-28T23:59:07+00:00''"
    by code_simp
  from getTickets_maps_in_order [OF h, of quasarUTC initial]
  have "tickets (getTickets quasarUTC (Resolved ?datas) initial) ! 1 =
          specRow quasarUTC (int 1 + 1) (?datas ! 1)"
    and "length (tickets (getTickets quasarUTC (Resolved ?datas) initial)) = length ?datas"
    by simp_all
  then show ?thesis
    by (simp add: pageSetup_def specRow_def field_def c quasarUTC_example)
qed

text \<open>
  Claim C5. For a row list of length K, \<^verbatim>\<open>updateTicketList\<close> with a payload whose \<^verbatim>\<open>data\<close> is
  a record returns, and afterwards the row list is the K old rows, unchanged and not
  renumbered, followed by the one row mapped from the record with sequence number
  K + 1; its length is K + 1, the add dialog is closed, and the one effect is the
  success notification.
\<close>

theorem updateTicketList_appends:
  assumes "getProp payload ''data'' = Inr record" and "\<not> nullish record"
  shows "\<exists>s'. updateTicketList formatDate payload s = Inr s' \<and>
           tickets s' = tickets s @ [specRow formatDate (int (length (tickets s)) + 1) record] \<and>
           length (tickets s') = length (tickets s) + 1 \<and>
           (\<forall>k<length (tickets s). tickets s' ! k = tickets s ! k) \<and>
           field (tickets s' ! length (tickets s)) ''#'' = JNum (int (length (tickets s)) + 1) \<and>
           showaddTicketDialog s' = False \<and>
           effects s' = effects s @ [Notify (Typed ''positive'' ''Ticket added successfully.'')] \<and>
           ticket s' = ticket s \<and> showUpdateTicketDialog s' = showUpdateTicketDialog s"
proof -
  have "field (specRow formatDate (int (length (tickets s)) + 1) record) ''#'' =
          JNum (int (length (tickets s)) + 1)"
    by (simp add: specRow_def field_def)
  with assms show ?thesis
    by (simp add: updateTicketList_def ticketRow_specRow emit_def Let_def nth_append)
qed

theorem updateTicketList_appends_witness:
  "getProp (JObj [(''data'', JObj [(''id'', JStr ''t9''), (''subject'', JStr ''New'')])]) ''data'' =
     Inr (JObj [(''id'', JStr ''t9''), (''subject'', JStr ''New'')]) \<and>
   \<not> nullish (JObj [(''id'', JStr ''t9''), (''subject'', JStr ''New'')]) \<and>
   (\<exists>s'. updateTicketList sameText
            (JObj [(''data'', JObj [(''id'', JStr ''t9''), (''subject'', JStr ''New'')])])
            \<lparr>ticket = JObj [], tickets = [JObj [(''#'', JNum 1), (''id'', JStr ''t1'')]],
             showaddTicketDialog = True, showUpdateTicketDialog = False, effects = []\<rparr> = Inr s' \<and>
         tickets s' =
           [JObj [(''#'', JNum 1), (''id'', JStr ''t1'')],
            JObj [(''#'', JNum 2), (''id'', JStr ''t9''), (''subject'', JStr ''New''),
                  (''description'', JUndefined), (''status'', JUndefined),
                  (''created'', JUndefined), (''updated'', JUndefined),
                  (''comments'', JUndefined)]] \<and>
         showaddTicketDialog s' = False \<and>
         effects s' = [Notify (Typed ''positive'' ''Ticket added successfully.'')])"
proof -
  let ?data = "JObj [(''id'', JStr ''t9''), (''subject'', JStr ''New'')]"
  let ?payload = "JObj [(''data'', ?data)]"
  let ?s = "\<lparr>ticket = JObj [], tickets = [JObj [(''#'', JNum 1), (''id'', JStr ''t1'')]],
             showaddTicketDialog = True, showUpdateTicketDialog = False, effects = []\<rparr>"
  have a: "getProp ?payload ''data'' = Inr ?data" by simp
  have b: "\<not> nullish ?data" by simp
  have c: "specRow sameText (int (length (tickets ?s)) + 1) ?data =
             JObj [(''#'', JNum 2), (''id'', JStr ''t9''), (''subject'', JStr ''New''),
                  (''description'', JUndefined), (''status'', JUndefined),
                  (''created'', JUndefined), (''updated'', JUndefined),
                  (''comments'', JUndefined)]"
    by (simp add: specRow_def field_def sameText_def)
  from updateTicketList_appends [OF a b, of sameText ?s]
  obtain s' where "updateTicketList sameText ?payload ?s = Inr s'"
    "tickets s' = tickets ?s @ [specRow sameText (int (length (tickets ?s)) + 1) ?data]"
    "showaddTicketDialog s' = False"
    "effects s' = effects ?s @ [Notify (Typed ''positive'' ''Ticket added successfully.'')]"
    by blast
  with a b c show ?thesis by simp
qed

section \<open>What a handler adds to the trace\<close>

lemma extends_refl: "extends s s"
  by (simp add: extends_def)

lemma extends_trans:
  assumes "extends s t" and "extends t u"
  shows "extends s u"
proof -
  from assms(1) obtain a where a: "effects t = effects s @ a"
      "\<forall>m. Dismiss m \<in> set a \<longrightarrow> length (effects s) \<le> m"
    by (auto simp: extends_def)
  from assms(2) obtain b where b: "effects u = effects t @ b"
      "\<forall>m. Dismiss m \<in> set b \<longrightarrow> length (effects t) \<le> m"
    by (auto simp: extends_def)
  have "effects u = effects s @ (a @ b)" using a(1) b(1) by simp
  moreover have "\<forall>m. Dismiss m \<in> set (a @ b) \<longrightarrow> length (effects s) \<le> m"
    using a b(2) by fastforce
  ultimately show ?thesis unfolding extends_def by blast
qed

lemma extends_emit:
  "(\<And>m. e = Dismiss m \<Longrightarrow> length (effects s) \<le> m) \<Longrightarrow> extends s (emit e s)"
  by (auto simp: extends_def emit_def)

lemma extends_getTickets: "extends s (getTickets formatDate res s)"
  by (auto simp: extends_def getTickets_def emit_def Let_def split: outcome.splits sum.splits)

lemma extends_same_effects: "effects s' = effects s \<Longrightarrow> extends s s'"
  by (simp add: extends_def)

lemma extends_deleteTicket:
  "deleteTicket formatDate ans del res props s = Inr s' \<Longrightarrow> extends s s'"
proof -
  assume r: "deleteTicket formatDate ans del res props s = Inr s'"
  have e1: "\<And>d. extends s (emit (Dialog ''Delete Ticket'' d) s)"
    by (rule extends_emit) simp
  have e2: "\<And>d x. extends s (emit (DeleteRequest x) (emit (Dialog ''Delete Ticket'' d) s))"
    by (rule extends_trans [OF e1]) (rule extends_emit, simp)
  have e3: "\<And>d x. extends s
      (getTickets formatDate res (emit (DeleteRequest x) (emit (Dialog ''Delete Ticket'' d) s)))"
    by (rule extends_trans [OF e2]) (rule extends_getTickets)
  from r show ?thesis
    by (auto simp: deleteTicket_def bindE_def Let_def e1 e2 e3
        split: sum.splits answer.splits outcome.splits)
qed

lemma extends_handle: "extends s (handle formatDate e s)"
proof (cases e)
  case AddTicket
  then show ?thesis by (simp add: addTicket_def extends_same_effects)
next
  case (EditTicket ev props)
  then show ?thesis
    by (auto simp: editTicket_def bindE_def extends_refl
        intro!: extends_same_effects split: sum.splits)
next
  case (DeleteTicket ans del res props)
  then show ?thesis
    by (auto simp: extends_refl extends_deleteTicket split: sum.splits)
next
  case (TicketUpdated res)
  have "extends s (s\<lparr>showUpdateTicketDialog := False\<rparr>)"
    by (simp add: extends_same_effects)
  then show ?thesis
    using TicketUpdated by (auto simp: ticketUpdated_def intro: extends_trans extends_getTickets)
next
  case (UpdateTicketList payload)
  then show ?thesis
    by (auto simp: updateTicketList_def Let_def emit_def extends_def split: sum.splits)
qed

lemma extends_run: "extends s (run formatDate es s)"
proof (induction es arbitrary: s)
  case Nil
  show ?case by (simp add: extends_refl)
next
  case (Cons e es)
  show ?case
    using extends_trans [OF extends_handle Cons.IH] by simp
qed

text \<open>
  Claim C9. When the \<^verbatim>\<open>list\<close> call of \<^verbatim>\<open>getTickets\<close> is rejected, the row list and the other
  refs are as before; the call has raised the loading notification and made the one
  remote request, without a second one and without dismissing the notification; and
  whatever the user does afterwards, no handler dismisses that notification.
\<close>

theorem getTickets_rejected:
  "tickets (getTickets formatDate Rejected s) = tickets s \<and>
   ticket (getTickets formatDate Rejected s) = ticket s \<and>
   showaddTicketDialog (getTickets formatDate Rejected s) = showaddTicketDialog s \<and>
   showUpdateTicketDialog (getTickets formatDate Rejected s) = showUpdateTicketDialog s \<and>
   effects (getTickets formatDate Rejected s) =
     effects s @
       [Notify (Spinner ''Please wait while loading tickets...''),
        ListRequest 0 100000 ''subject'' False ''''] \<and>
   Dismiss (length (effects s)) \<notin>
     set (drop (length (effects s))
            (effects (run formatDate' events (getTickets formatDate Rejected s))))"
proof -
  let ?s1 = "getTickets formatDate Rejected s"
  have eff: "effects ?s1 =
     effects s @
       [Notify (Spinner ''Please wait while loading tickets...''),
        ListRequest 0 100000 ''subject'' False '''']"
    by (simp add: getTickets_def emit_def Let_def)
  from extends_run [of ?s1 formatDate' events]
  obtain new where new: "effects (run formatDate' events ?s1) = effects ?s1 @ new"
      "\<forall>m. Dismiss m \<in> set new \<longrightarrow> length (effects ?s1) \<le> m"
    by (auto simp: extends_def)
  have "Dismiss (length (effects s)) \<notin> set new"
    using new(2) eff by auto
  then have never: "Dismiss (length (effects s)) \<notin>
     set (drop (length (effects s)) (effects (run formatDate' events ?s1)))"
    using new(1) eff by simp
  have refs: "tickets ?s1 = tickets s \<and> ticket ?s1 = ticket s \<and>
      showaddTicketDialog ?s1 = showaddTicketDialog s \<and>
      showUpdateTicketDialog ?s1 = showUpdateTicketDialog s"
    by (simp add: getTickets_def emit_def Let_def)
  from refs eff never show ?thesis by blast
qed

section \<open>Closing the edit dialog\<close>

text \<open>
  Claim C6 as stated fails: after \<^verbatim>\<open>ticketUpdated\<close> the state is not the old one with the
  flag reset. The list request is in the trace whether the call then resolves or is
  rejected, and when it resolves with no records the one row of the list is gone.
\<close>

theorem ticketUpdated_reload_counterexample:
  "ticketUpdated sameText (Resolved [])
     \<lparr>ticket = JObj [], tickets = [JObj [(''#'', JNum 1), (''id'', JStr ''t1'')]],
      showaddTicketDialog = False, showUpdateTicketDialog = True, effects = []\<rparr> \<noteq>
   \<lparr>ticket = JObj [], tickets = [JObj [(''#'', JNum 1), (''id'', JStr ''t1'')]],
    showaddTicketDialog = False, showUpdateTicketDialog = False, effects = []\<rparr> \<and>
   tickets (ticketUpdated sameText (Resolved [])
     \<lparr>ticket = JObj [], tickets = [JObj [(''#'', JNum 1), (''id'', JStr ''t1'')]],
      showaddTicketDialog = False, showUpdateTicketDialog = True, effects = []\<rparr>) = [] \<and>
   ListRequest 0 100000 ''subject'' False '''' \<in>
     set (effects (ticketUpdated sameText (Resolved [])
       \<lparr>ticket = JObj [], tickets = [JObj [(''#'', JNum 1), (''id'', JStr ''t1'')]],
        showaddTicketDialog = False, showUpdateTicketDialog = True, effects = []\<rparr>)) \<and>
   ListRequest 0 100000 ''subject'' False '''' \<in>
     set (effects (ticketUpdated sameText Rejected
       \<lparr>ticket = JObj [], tickets = [JObj [(''#'', JNum 1), (''id'', JStr ''t1'')]],
        showaddTicketDialog = False, showUpdateTicketDialog = True, effects = []\<rparr>))"
  by (simp add: ticketUpdated_def getTickets_def emit_def Let_def)

text \<open>
  Claim C6, amended. \<^verbatim>\<open>ticketUpdated\<close> resets the visibility flag of the edit dialog and
  triggers a full reload: the loading notification and the remote list request follow
  in the trace, and when the request resolves with N records the row list is replaced
  by their N mapped rows, numbered from 1 in fetch order.
\<close>

theorem ticketUpdated_closes_and_reloads:
  assumes "\<forall>d\<in>set records. \<not> nullish d"
  shows "showUpdateTicketDialog (ticketUpdated formatDate res s) = False \<and>
         (\<exists>rest. effects (ticketUpdated formatDate res s) =
            effects s @
              [Notify (Spinner ''Please wait while loading tickets...''),
               ListRequest 0 100000 ''subject'' False ''''] @ rest) \<and>
         length (tickets (ticketUpdated formatDate (Resolved records) s)) = length records \<and>
         (\<forall>k<length records.
            tickets (ticketUpdated formatDate (Resolved records) s) ! k =
              specRow formatDate (int k + 1) (records ! k))"
proof -
  let ?s0 = "s\<lparr>showUpdateTicketDialog := False\<rparr>"
  have flag: "showUpdateTicketDialog (ticketUpdated formatDate res s) = False"
    by (simp add: ticketUpdated_def getTickets_def emit_def Let_def
        split: outcome.splits sum.splits)
  from getTickets_effects [of formatDate res ?s0]
  have trace: "\<exists>rest. effects (ticketUpdated formatDate res s) =
            effects s @
              [Notify (Spinner ''Please wait while loading tickets...''),
               ListRequest 0 100000 ''subject'' False ''''] @ rest"
    by (auto simp: ticketUpdated_def)
  from mapTickets_rows [OF assms, of formatDate 1]
  obtain rows where rows: "mapTickets formatDate 1 records = Inr rows"
      "length rows = length records"
      "\<forall>k<length records. rows ! k = specRow formatDate (1 + int k) (records ! k)"
    by blast
  have t: "tickets (ticketUpdated formatDate (Resolved records) s) = rows"
    by (simp add: ticketUpdated_def getTickets_resolved [OF rows(1)])
  have nth: "\<forall>k<length records. rows ! k = specRow formatDate (int k + 1) (records ! k)"
  proof (intro allI impI)
    fix k assume "k < length records"
    with rows(3) have "rows ! k = specRow formatDate (1 + int k) (records ! k)" by blast
    moreover have "1 + int k = int k + 1" by simp
    ultimately show "rows ! k = specRow formatDate (int k + 1) (records ! k)" by simp
  qed
  show ?thesis
    unfolding t by (intro conjI flag trace rows(2) nth)
qed

theorem ticketUpdated_closes_and_reloads_witness:
  "list_all (\<lambda>d. \<not> nullish d) [JObj [(''id'', JStr ''t2''), (''subject'', JStr ''Edited'')]] \<and>
   showUpdateTicketDialog (ticketUpdated sameText
     (Resolved [JObj [(''id'', JStr ''t2''), (''subject'', JStr ''Edited'')]])
     \<lparr>ticket = JObj [], tickets = [JObj [(''#'', JNum 1), (''id'', JStr ''t1'')]],
      showaddTicketDialog = False, showUpdateTicketDialog = True, effects = []\<rparr>) = False \<and>
   tickets (ticketUpdated sameText
     (Resolved [JObj [(''id'', JStr ''t2''), (''subject'', JStr ''Edited'')]])
     \<lparr>ticket = JObj [], tickets = [JObj [(''#'', JNum 1), (''id'', JStr ''t1'')]],
      showaddTicketDialog = False, showUpdateTicketDialog = True, effects = []\<rparr>) ! 0 =
   JObj [(''#'', JNum 1), (''id'', JStr ''t2''), (''subject'', JStr ''Edited''),
         (''description'', JUndefined), (''status'', JUndefined), (''created'', JUndefined),
         (''updated'', JUndefined), (''comments'', JUndefined)]"
proof -
  let ?records = "[JObj [(''id'', JStr ''t2''), (''subject'', JStr ''Edited'')]]"
  let ?s = "\<lparr>ticket = JObj [], tickets = [JObj [(''#'', JNum 1), (''id'', JStr ''t1'')]],
      showaddTicketDialog = False, showUpdateTicketDialog = True, effects = []\<rparr>"
  have h: "\<forall>d\<in>set ?records. \<not> nullish d" by simp
  from ticketUpdated_closes_and_reloads [OF h, of sameText "Resolved ?records" ?s]
  have "showUpdateTicketDialog (ticketUpdated sameText (Resolved ?records) ?s) = False"
    and "tickets (ticketUpdated sameText (Resolved ?records) ?s) ! 0 =
           specRow sameText (int 0 + 1) (?records ! 0)"
    by simp_all
  then show ?thesis
    by (simp add: specRow_def field_def sameText_def)
qed

section \<open>Opening the edit dialog\<close>

text \<open>
  Claim C7 against the code. \<^verbatim>\<open>editTicket\<close> on a mapped row takes \<^verbatim>\<open>id\<close>, \<^verbatim>\<open>subject\<close>,
  \<^verbatim>\<open>description\<close>, \<^verbatim>\<open>status\<close> and \<^verbatim>\<open>comments\<close> from the row and opens the edit dialog, but it
  reads the dates as \<^verbatim>\<open>createdAt\<close> and \<^verbatim>\<open>updatedAt\<close>, which a mapped row does not have (its
  dates are \<^verbatim>\<open>created\<close> and \<^verbatim>\<open>updated\<close>): the form's dates are the formatter's result on
  \<^verbatim>\<open>undefined\<close>, whatever the dates of the row.
\<close>

theorem editTicket_dates_not_from_row:
  "editTicket formatDate' event (specRow formatDate n data) s =
     Inr (s\<lparr>ticket := JObj
               [(''id'', field data ''id''),
                (''subject'', field data ''subject''),
                (''description'', field data ''description_text''),
                (''status'', field data ''status''),
                (''created'', formatDate' JUndefined ''YYYY-MM-DDTHH:mm:ssZ''),
                (''updated'', formatDate' JUndefined ''YYYY-MM-DDTHH:mm:ssZ''),
                (''comments'', field data ''comments'')],
            showUpdateTicketDialog := True\<rparr>)"
  by (simp add: editTicket_def bindE_def specRow_def)

section \<open>Deleting\<close>

text \<open>
  Claim C8. For \<^verbatim>\<open>props\<close> whose \<^verbatim>\<open>row\<close> has the id \<open>ident\<close>, \<^verbatim>\<open>deleteTicket\<close> first opens the
  confirmation dialog. If the user cancels, that is all: no remote call is made and
  no ref has changed. If the user accepts, the remote delete is requested next, once,
  with exactly \<open>ident\<close>; if it is rejected nothing follows and the row list is as
  before; if it completes, the reload runs after it, starting with the loading
  notification and the list request.
\<close>

theorem deleteTicket_waits_for_confirmation:
  assumes "getProp props ''row'' = Inr row" and "getProp row ''id'' = Inr ident"
  shows "deleteTicket formatDate Cancel del res props s =
           Inr (s\<lparr>effects := effects s @
                  [Dialog ''Delete Ticket''
                     [Text ''You are about to delete a ticket: <ul><li>'', Val ident,
                      Text ''</li></ul>'']]\<rparr>) \<and>
         deleteTicket formatDate Ok Rejected res props s =
           Inr (s\<lparr>effects := effects s @
                  [Dialog ''Delete Ticket''
                     [Text ''You are about to delete a ticket: <ul><li>'', Val ident,
                      Text ''</li></ul>''],
                   DeleteRequest ident]\<rparr>) \<and>
         (\<exists>s' rest.
            deleteTicket formatDate Ok (Resolved ()) res props s = Inr s' \<and>
            s' = getTickets formatDate res
                   (s\<lparr>effects := effects s @
                      [Dialog ''Delete Ticket''
                         [Text ''You are about to delete a ticket: <ul><li>'', Val ident,
                          Text ''</li></ul>''],
                       DeleteRequest ident]\<rparr>) \<and>
            effects s' =
              effects s @
                [Dialog ''Delete Ticket''
                   [Text ''You are about to delete a ticket: <ul><li>'', Val ident,
                    Text ''</li></ul>''],
                 DeleteRequest ident,
                 Notify (Spinner ''Please wait while loading tickets...''),
                 ListRequest 0 100000 ''subject'' False ''''] @ rest \<and>
            (\<forall>x. DeleteRequest x \<notin> set rest))"
proof -
  let ?d = "Dialog ''Delete Ticket''
              [Text ''You are about to delete a ticket: <ul><li>'', Val ident,
               Text ''</li></ul>'']"
  let ?s2 = "s\<lparr>effects := effects s @ [?d, DeleteRequest ident]\<rparr>"
  have cancel: "deleteTicket formatDate Cancel del res props s =
      Inr (s\<lparr>effects := effects s @ [?d]\<rparr>)"
    using assms by (simp add: deleteTicket_def bindE_def emit_def Let_def)
  have rejected: "deleteTicket formatDate Ok Rejected res props s = Inr ?s2"
    using assms by (simp add: deleteTicket_def bindE_def emit_def Let_def)
  have resolved: "deleteTicket formatDate Ok (Resolved ()) res props s =
      Inr (getTickets formatDate res ?s2)"
    using assms by (simp add: deleteTicket_def bindE_def emit_def Let_def)
  from getTickets_effects [of formatDate res ?s2]
  obtain rest where rest: "effects (getTickets formatDate res ?s2) =
      effects ?s2 @
        [Notify (Spinner ''Please wait while loading tickets...''),
         ListRequest 0 100000 ''subject'' False ''''] @ rest"
      "\<forall>x. DeleteRequest x \<notin> set rest"
    by blast
  from rest(1) have eff: "effects (getTickets formatDate res ?s2) =
      effects s @
        [?d, DeleteRequest ident,
         Notify (Spinner ''Please wait while loading tickets...''),
         ListRequest 0 100000 ''subject'' False ''''] @ rest"
    by simp
  from resolved eff rest(2)
  have "\<exists>s' rest.
            deleteTicket formatDate Ok (Resolved ()) res props s = Inr s' \<and>
            s' = getTickets formatDate res ?s2 \<and>
            effects s' =
              effects s @
                [?d, DeleteRequest ident,
                 Notify (Spinner ''Please wait while loading tickets...''),
                 ListRequest 0 100000 ''subject'' False ''''] @ rest \<and>
            (\<forall>x. DeleteRequest x \<notin> set rest)"
    by blast
  with cancel rejected show ?thesis by blast
qed

theorem deleteTicket_waits_for_confirmation_witness:
  "getProp (JObj [(''row'', JObj [(''#'', JNum 1), (''id'', JStr ''t1'')])]) ''row'' =
     Inr (JObj [(''#'', JNum 1), (''id'', JStr ''t1'')]) \<and>
   getProp (JObj [(''#'', JNum 1), (''id'', JStr ''t1'')]) ''id'' = Inr (JStr ''t1'') \<and>
   deleteTicket sameText Cancel (Resolved ()) (Resolved [])
     (JObj [(''row'', JObj [(''#'', JNum 1), (''id'', JStr ''t1'')])])
     \<lparr>ticket = JObj [], tickets = [JObj [(''#'', JNum 1), (''id'', JStr ''t1'')]],
      showaddTicketDialog = False, showUpdateTicketDialog = False, effects = []\<rparr> =
   Inr \<lparr>ticket = JObj [], tickets = [JObj [(''#'', JNum 1), (''id'', JStr ''t1'')]],
        showaddTicketDialog = False, showUpdateTicketDialog = False,
        effects =
          [Dialog ''Delete Ticket''
             [Text ''You are about to delete a ticket: <ul><li>'', Val (JStr ''t1''),
              Text ''</li></ul>'']]\<rparr> \<and>
   deleteTicket sameText Ok (Resolved ()) (Resolved [])
     (JObj [(''row'', JObj [(''#'', JNum 1), (''id'', JStr ''t1'')])])
     \<lparr>ticket = JObj [], tickets = [JObj [(''#'', JNum 1), (''id'', JStr ''t1'')]],
      showaddTicketDialog = False, showUpdateTicketDialog = False, effects = []\<rparr> =
   Inr \<lparr>ticket = JObj [], tickets = [],
        showaddTicketDialog = False, showUpdateTicketDialog = False,
        effects =
          [Dialog ''Delete Ticket''
             [Text ''You are about to delete a ticket: <ul><li>'', Val (JStr ''t1''),
              Text ''</li></ul>''],
           DeleteRequest (JStr ''t1''),
           Notify (Spinner ''Please wait while loading tickets...''),
           ListRequest 0 100000 ''subject'' False '''',
           Dismiss 2]\<rparr>"
proof -
  let ?row = "JObj [(''#'', JNum 1), (''id'', JStr ''t1'')]"
  let ?props = "JObj [(''row'', ?row)]"
  let ?s = "\<lparr>ticket = JObj [], tickets = [?row],
      showaddTicketDialog = False, showUpdateTicketDialog = False, effects = []\<rparr>"
  have a: "getProp ?props ''row'' = Inr ?row" by simp
  have b: "getProp ?row ''id'' = Inr (JStr ''t1'')" by simp
  from deleteTicket_waits_for_confirmation [OF a b, of sameText "Resolved ()" "Resolved []" ?s]
  have "deleteTicket sameText Cancel (Resolved ()) (Resolved []) ?props ?s =
          Inr (?s\<lparr>effects := effects ?s @
                  [Dialog ''Delete Ticket''
                     [Text ''You are about to delete a ticket: <ul><li>'', Val (JStr ''t1''),
                      Text ''</li></ul>'']]\<rparr>)"
    and "deleteTicket sameText Ok (Resolved ()) (Resolved []) ?props ?s =
          Inr (getTickets sameText (Resolved [])
                 (?s\<lparr>effects := effects ?s @
                    [Dialog ''Delete Ticket''
                       [Text ''You are about to delete a ticket: <ul><li>'', Val (JStr ''t1''),
                        Text ''</li></ul>''],
                     DeleteRequest (JStr ''t1'')]\<rparr>))"
    by blast+
  with a b show ?thesis
    by (simp add: getTickets_def emit_def Let_def)
qed

end
